theory Spec2Isabelle
  imports Complex_Main
begin

section \<open>Python values used by \<^verbatim>\<open>teste5.py\<close>\<close>

text \<open>
  A Python \<^verbatim>\<open>dict\<close> is kept as the list of its items in insertion order, which is the
  order \<^verbatim>\<open>items()\<close>, \<^verbatim>\<open>keys()\<close> and \<^verbatim>\<open>values()\<close> iterate in.
  \<open>dict_get d k v\<close> is \<^verbatim>\<open>d.get(k, v)\<close>; \<open>dict_set d k v\<close> is \<^verbatim>\<open>d[k] = v\<close>: an
  existing key keeps its place, a new key goes to the end.
\<close>

type_synonym ('k, 'v) dict = "('k \<times> 'v) list"

fun dict_get :: "('k, 'v) dict \<Rightarrow> 'k \<Rightarrow> 'v \<Rightarrow> 'v" where
  "dict_get [] k d = d"
| "dict_get ((k', v) # rest) k d = (if k' = k then v else dict_get rest k d)"

fun dict_set :: "('k, 'v) dict \<Rightarrow> 'k \<Rightarrow> 'v \<Rightarrow> ('k, 'v) dict" where
  "dict_set [] k v = [(k, v)]"
| "dict_set ((k', v') # rest) k v =
     (if k' = k then (k, v) # rest else (k', v') # dict_set rest k v)"

definition dict_keys :: "('k, 'v) dict \<Rightarrow> 'k list" where
  "dict_keys d = map fst d"

definition dict_values :: "('k, 'v) dict \<Rightarrow> 'v list" where
  "dict_values d = map snd d"

text \<open>
  Exceptions. \<open>ZeroDivisionError\<close> is what Python's \<^verbatim>\<open>/\<close> raises on a zero divisor;
  \<open>LibraryError m\<close> is an exception raised inside one of the libraries the script
  calls, \<open>m\<close> being what \<^verbatim>\<open>str(e)\<close> gives. \<open>str_exn\<close> is that \<^verbatim>\<open>str(e)\<close>, as the
  f-string of the warning formats it.
\<close>

datatype exn = ZeroDivisionError | LibraryError string

fun str_exn :: "exn \<Rightarrow> string" where
  "str_exn ZeroDivisionError = ''division by zero''"
| "str_exn (LibraryError m) = m"

text \<open>\<open>str_nat n\<close> is \<^verbatim>\<open>str(n)\<close> for a non-negative \<^verbatim>\<open>int\<close>: its decimal digits.\<close>

definition digit_char :: "nat \<Rightarrow> char" where
  "digit_char d = ''0123456789'' ! d"

fun str_nat :: "nat \<Rightarrow> string" where
  "str_nat n = (if n < 10 then [digit_char n] else str_nat (n div 10) @ [digit_char (n mod 10)])"

declare str_nat.simps [simp del]

section \<open>The detector's records and the colour table\<close>

text \<open>
  One face record of \<^verbatim>\<open>DeepFace.analyze\<close>, by the two keys the script reads: \<^verbatim>\<open>"region"\<close>
  (a dict of integers, read at the keys x, y, w, h) and \<^verbatim>\<open>"dominant_emotion"\<close>. A key
  that the record lacks is \<open>None\<close>. The call returns either one record or a list of
  records, depending on the library's version: \<open>analysis\<close>.
\<close>

record face_data =
  region :: "(string, int) dict option"
  dominant_emotion :: "string option"

datatype analysis = Single face_data | Many "face_data list"

type_synonym color = "int \<times> int \<times> int"

text \<open>\<^verbatim>\<open>EMOTIONS_COLORS\<close> (lines 71-80), in source order.\<close>

definition EMOTIONS_COLORS :: "(string, color) dict" where
  "EMOTIONS_COLORS =
     [(''happy'', (0, 255, 0)),
      (''sad'', (255, 0, 0)),
      (''angry'', (0, 0, 255)),
      (''surprise'', (255, 255, 0)),
      (''fear'', (128, 0, 128)),
      (''neutral'', (255, 255, 255)),
      (''disgust'', (0, 128, 0)),
      (''Unknown'', (128, 128, 128))]"

text \<open>\<^verbatim>\<open>face_data.get("dominant_emotion", "Unknown")\<close> (lines 87, 98 and 114).\<close>

definition emotion_of :: "face_data \<Rightarrow> string" where
  "emotion_of face = (case dominant_emotion face of None \<Rightarrow> ''Unknown'' | Some e \<Rightarrow> e)"

section \<open>The libraries the script calls\<close>

text \<open>
  The libraries are parameters of the model. A frame is a value of any type \<open>'f\<close>.
  \<^item> \<open>DeepFace_analyze frame\<close> is \<^verbatim>\<open>DeepFace.analyze(frame, actions=["emotion"],
    enforce_detection=False)\<close>: it returns an analysis or raises.
  \<^item> \<open>cv2_rectangle\<close> and \<open>cv2_putText\<close> draw on the frame in place; the model returns the
    frame as drawn on, or the exception raised (the frame then being as it was).
  \<^item> \<open>st_progress v\<close> is \<^verbatim>\<open>progress_bar.progress(v)\<close>: \<open>None\<close> when the widget takes the
    value, \<open>Some e\<close> when it raises \<open>e\<close>.
\<close>

datatype font = FONT_HERSHEY_SIMPLEX

type_synonym point = "int \<times> int"

record 'f libraries =
  DeepFace_analyze :: "'f \<Rightarrow> exn + analysis"
  cv2_rectangle :: "'f \<Rightarrow> point \<Rightarrow> point \<Rightarrow> color \<Rightarrow> int \<Rightarrow> exn + 'f"
  cv2_putText :: "'f \<Rightarrow> string \<Rightarrow> point \<Rightarrow> font \<Rightarrow> rat \<Rightarrow> color \<Rightarrow> int \<Rightarrow> exn + 'f"
  st_progress :: "rat \<Rightarrow> exn option"

section \<open>\<^verbatim>\<open>draw_emotions_on_frame\<close> (lines 83-91)\<close>

text \<open>
  The colour looked up for a label: \<^verbatim>\<open>EMOTIONS_COLORS.get(emotion, (255, 255, 255))\<close>
  (line 88).
\<close>

definition emotion_color :: "string \<Rightarrow> color" where
  "emotion_color emotion = dict_get EMOTIONS_COLORS emotion (255, 255, 255)"

text \<open>
  The body of the loop for one record that has a region (lines 86-90). The result is
  \<open>Inr frame'\<close> when both drawing calls returned, and \<open>Inl (e, frame')\<close> when one raised
  \<open>e\<close>, \<open>frame'\<close> being the frame array as the calls before it left it: the drawing is in
  place, so what was drawn before an exception stays on the frame.
\<close>

definition draw_face :: "'f libraries \<Rightarrow> 'f \<Rightarrow> (string, int) dict \<Rightarrow> string \<Rightarrow> (exn \<times> 'f) + 'f" where
  "draw_face lib frame r emotion =
     (let x = dict_get r ''x'' 0; y = dict_get r ''y'' 0;
          w = dict_get r ''w'' 0; h = dict_get r ''h'' 0;
          color = emotion_color emotion
      in case cv2_rectangle lib frame (x, y) (x + w, y + h) color 2 of
           Inl e \<Rightarrow> Inl (e, frame)
         | Inr frame1 \<Rightarrow>
             (case cv2_putText lib frame1 emotion (x, y - 10) FONT_HERSHEY_SIMPLEX (9 / 10) color 2 of
                Inl e \<Rightarrow> Inl (e, frame1)
              | Inr frame2 \<Rightarrow> Inr frame2))"

fun draw_emotions_on_frame :: "'f libraries \<Rightarrow> 'f \<Rightarrow> face_data list \<Rightarrow> (exn \<times> 'f) + 'f" where
  "draw_emotions_on_frame lib frame [] = Inr frame"
| "draw_emotions_on_frame lib frame (face # rest) =
     (case region face of
        None \<Rightarrow> draw_emotions_on_frame lib frame rest
      | Some r \<Rightarrow>
          (case draw_face lib frame r (emotion_of face) of
             Inl err \<Rightarrow> Inl err
           | Inr frame' \<Rightarrow> draw_emotions_on_frame lib frame' rest))"

section \<open>The emotion tally (lines 96-99 and 112-115) and its two readers\<close>

text \<open>
  \<open>count_emotions counts emotion_data\<close> is the loop that both
  \<^verbatim>\<open>generate_context_from_emotions\<close> and \<^verbatim>\<open>plot_emotion_distribution\<close> run, from the
  dict \<open>counts\<close>; both start it from the empty dict.
\<close>

fun count_emotions :: "(string, nat) dict \<Rightarrow> face_data list \<Rightarrow> (string, nat) dict" where
  "count_emotions emotion_counts [] = emotion_counts"
| "count_emotions emotion_counts (face # rest) =
     count_emotions
       (dict_set emotion_counts (emotion_of face) (dict_get emotion_counts (emotion_of face) 0 + 1))
       rest"

definition emotion_counts :: "face_data list \<Rightarrow> (string, nat) dict" where
  "emotion_counts emotion_data = count_emotions [] emotion_data"

text \<open>
  \<^verbatim>\<open>generate_context_from_emotions\<close> returns a text; the model keeps its lines by what
  they say (the Portuguese wording is fixed text around the label and the count).
\<close>

datatype context_line =
  Header
  | No_emotion_detected
  | Emotion_detected string nat
  | Footer

definition generate_context_from_emotions :: "face_data list \<Rightarrow> context_line list" where
  "generate_context_from_emotions emotion_data =
     (let counts = emotion_counts emotion_data
      in [Header]
         @ (if counts = [] then [No_emotion_detected]
            else map (\<lambda>(emotion, count). Emotion_detected emotion count) counts)
         @ [Footer])"

text \<open>
  \<^verbatim>\<open>plot_emotion_distribution\<close> hands \<^verbatim>\<open>plt.bar\<close> the labels, the counts and one colour
  per label: \<^verbatim>\<open>EMOTIONS_COLORS.get(e, "gray")\<close> (line 121), a table entry or the colour
  name.
\<close>

datatype bar_color = Table_color color | Named_color string

definition plot_emotion_distribution :: "face_data list \<Rightarrow> (string \<times> nat \<times> bar_color) list" where
  "plot_emotion_distribution emotion_data =
     map (\<lambda>(emotion, count).
            (emotion, count,
             dict_get (map (\<lambda>(k, c). (k, Table_color c)) EMOTIONS_COLORS) emotion (Named_color ''gray'')))
         (emotion_counts emotion_data)"

section \<open>\<^verbatim>\<open>analyze_emotions\<close> (lines 38-68)\<close>

text \<open>
  The opened video: whether \<^verbatim>\<open>isOpened()\<close> holds, the frames that successive
  \<^verbatim>\<open>read()\<close> calls return before \<^verbatim>\<open>ret\<close> is false, and the frame count that the
  container reports (\<^verbatim>\<open>int(video_capture.get(cv2.CAP_PROP_FRAME_COUNT))\<close>), which need
  not be the number of frames.
\<close>

record 'f VideoCapture =
  isOpened :: bool
  frames :: "'f list"
  CAP_PROP_FRAME_COUNT :: int

text \<open>
  What a run has done so far: the frames read, the frames passed to
  \<^verbatim>\<open>output_video.write\<close>, \<^verbatim>\<open>frame_number\<close>, the values passed to
  \<^verbatim>\<open>progress_bar.progress\<close>, the warnings logged, and whether each \<^verbatim>\<open>release()\<close> has
  been called.
\<close>

record 'f run =
  frames_read :: "'f list"
  written :: "'f list"
  frame_number :: nat
  progress_values :: "rat list"
  warnings :: "string list"
  capture_released :: bool
  output_released :: bool

definition start :: "'f run" where
  "start = \<lparr>frames_read = [], written = [], frame_number = 0, progress_values = [],
            warnings = [], capture_released = False, output_released = False\<rparr>"

text \<open>
  The expression of line 57: \<^verbatim>\<open>analysis if isinstance(analysis, list) else [analysis]\<close>.
\<close>

fun analysis_list :: "analysis \<Rightarrow> face_data list" where
  "analysis_list (Many faces) = faces"
| "analysis_list (Single face) = [face]"

text \<open>
  The \<^verbatim>\<open>try\<close> statement (lines 55-59): the frame that \<^verbatim>\<open>frame\<close> holds after it, and
  the exception that the \<^verbatim>\<open>except\<close> clause caught, if any.
\<close>

definition try_block :: "'f libraries \<Rightarrow> 'f \<Rightarrow> 'f \<times> exn option" where
  "try_block lib frame =
     (case DeepFace_analyze lib frame of
        Inl e \<Rightarrow> (frame, Some e)
      | Inr analysis \<Rightarrow>
          (case draw_emotions_on_frame lib frame (analysis_list analysis) of
             Inl (e, frame') \<Rightarrow> (frame', Some e)
           | Inr frame' \<Rightarrow> (frame', None)))"

text \<open>The text of the warning (line 59).\<close>

definition warning_message :: "nat \<Rightarrow> exn \<Rightarrow> string" where
  "warning_message n e = ''Erro ao processar o frame '' @ str_nat n @ '': '' @ str_exn e"

text \<open>
  Lines 52 and 55-61 for a frame that was read: the \<^verbatim>\<open>try\<close> statement, the write and
  the increment. None of it raises.
\<close>

definition process_frame :: "'f libraries \<Rightarrow> 'f \<Rightarrow> 'f run \<Rightarrow> 'f run" where
  "process_frame lib frame s =
     (let (frame', caught) = try_block lib frame
      in s\<lparr>frames_read := frames_read s @ [frame],
           warnings := (case caught of
                          None \<Rightarrow> warnings s
                        | Some e \<Rightarrow> warnings s @ [warning_message (frame_number s) e]),
           written := written s @ [frame'],
           frame_number := frame_number s + 1\<rparr>)"

text \<open>
  Line 62: \<^verbatim>\<open>progress_bar.progress(frame_number / frame_count)\<close>. The division raises
  when \<^verbatim>\<open>frame_count\<close> is 0; the widget may raise on the value it is given. The quotient
  is exact here; Python rounds it to the nearest float, which keeps order and keeps
  \<open>n / n = 1\<close>.
\<close>

definition report_progress :: "'f libraries \<Rightarrow> int \<Rightarrow> 'f run \<Rightarrow> (exn \<times> 'f run) + 'f run" where
  "report_progress lib frame_count s =
     (if frame_count = 0 then Inl (ZeroDivisionError, s)
      else
        (let v = of_nat (frame_number s) / of_int frame_count;
             s' = s\<lparr>progress_values := progress_values s @ [v]\<rparr>
         in case st_progress lib v of
              Some e \<Rightarrow> Inl (e, s')
            | None \<Rightarrow> Inr s'))"

definition loop_body :: "'f libraries \<Rightarrow> int \<Rightarrow> 'f \<Rightarrow> 'f run \<Rightarrow> (exn \<times> 'f run) + 'f run" where
  "loop_body lib frame_count frame s = report_progress lib frame_count (process_frame lib frame s)"

text \<open>
  The \<^verbatim>\<open>while\<close> loop (lines 51-62) over the frames still to be read: it ends when
  \<^verbatim>\<open>read()\<close> has no frame left, or with the exception that an iteration raised and the
  state the run was left in.
\<close>

fun streaming :: "'f libraries \<Rightarrow> int \<Rightarrow> 'f list \<Rightarrow> 'f run \<Rightarrow> (exn \<times> 'f run) + 'f run" where
  "streaming lib frame_count [] s = Inr s"
| "streaming lib frame_count (frame # rest) s =
     (case loop_body lib frame_count frame s of
        Inl err \<Rightarrow> Inl err
      | Inr s' \<Rightarrow> streaming lib frame_count rest s')"

text \<open>
  The whole function. A capture that is not opened skips the loop. The two
  \<^verbatim>\<open>release()\<close> calls (lines 64-65) come after the loop; an exception leaves the function
  before them. The result is the exception with the state it left, or the returned
  \<^verbatim>\<open>output_path\<close> with the final state.
\<close>

definition analyze_emotions ::
  "'f libraries \<Rightarrow> 'f VideoCapture \<Rightarrow> string \<Rightarrow> (exn \<times> 'f run) + (string \<times> 'f run)" where
  "analyze_emotions lib video_capture output_path =
     (case (if isOpened video_capture
            then streaming lib (CAP_PROP_FRAME_COUNT video_capture) (frames video_capture) start
            else Inr start) of
        Inl err \<Rightarrow> Inl err
      | Inr s \<Rightarrow> Inr (output_path, s\<lparr>capture_released := True, output_released := True\<rparr>))"

text \<open>The state that an outcome carries, whether the function returned or raised.\<close>

fun loop_state :: "(exn \<times> 'f run) + 'f run \<Rightarrow> 'f run" where
  "loop_state (Inl (e, s)) = s"
| "loop_state (Inr s) = s"

fun final_state :: "(exn \<times> 'f run) + (string \<times> 'f run) \<Rightarrow> 'f run" where
  "final_state (Inl (e, s)) = s"
| "final_state (Inr (path, s)) = s"

section \<open>Stand-ins for the libraries, for concrete runs\<close>

text \<open>
  A frame of a concrete run is a numbered raw image with the drawing calls made on it,
  in order. The drawing stand-ins record the call and never raise.
  \<open>unit_interval_progress\<close> takes a value from 0 to 1 and raises on any other, which is
  how Streamlit documents \<^verbatim>\<open>progress\<close> for a float; \<open>any_progress\<close> takes every value.
\<close>

datatype draw_op =
  Rectangle point point color int
  | Text string point font rat color int

type_synonym canvas = "nat \<times> draw_op list"

definition unit_interval_progress :: "rat \<Rightarrow> exn option" where
  "unit_interval_progress v =
     (if 0 \<le> v \<and> v \<le> 1 then None else Some (LibraryError ''Progress Value has invalid value''))"

definition any_progress :: "rat \<Rightarrow> exn option" where
  "any_progress v = None"

definition canvas_lib :: "(canvas \<Rightarrow> exn + analysis) \<Rightarrow> (rat \<Rightarrow> exn option) \<Rightarrow> canvas libraries" where
  "canvas_lib detect widget =
     \<lparr>DeepFace_analyze = detect,
      cv2_rectangle = (\<lambda>frame p q c t. Inr (fst frame, snd frame @ [Rectangle p q c t])),
      cv2_putText = (\<lambda>frame txt p f sc c t. Inr (fst frame, snd frame @ [Text txt p f sc c t])),
      st_progress = widget\<rparr>"

text \<open>
  \<open>c_int_lib\<close> is \<open>canvas_lib\<close> with the one limit that the OpenCV binding puts on a
  point: each coordinate has to fit a C \<^verbatim>\<open>int\<close>, and the call raises when one does not.
  Within that range a call is recorded whether or not the point lies on the image
  (OpenCV clips what falls outside it).
\<close>

definition fits_c_int :: "int \<Rightarrow> bool" where
  "fits_c_int n \<longleftrightarrow> - 2147483648 \<le> n \<and> n \<le> 2147483647"

definition c_int_lib :: "(canvas \<Rightarrow> exn + analysis) \<Rightarrow> (rat \<Rightarrow> exn option) \<Rightarrow> canvas libraries" where
  "c_int_lib detect widget =
     \<lparr>DeepFace_analyze = detect,
      cv2_rectangle = (\<lambda>frame p q c t.
        if fits_c_int (fst p) \<and> fits_c_int (snd p) \<and> fits_c_int (fst q) \<and> fits_c_int (snd q)
        then Inr (fst frame, snd frame @ [Rectangle p q c t])
        else Inl (LibraryError ''integer does not fit a C int'')),
      cv2_putText = (\<lambda>frame txt p f sc c t.
        if fits_c_int (fst p) \<and> fits_c_int (snd p)
        then Inr (fst frame, snd frame @ [Text txt p f sc c t])
        else Inl (LibraryError ''integer does not fit a C int'')),
      st_progress = widget\<rparr>"

section \<open>Facts about the dicts\<close>

lemma dict_get_set_same: "dict_get (dict_set d k v) k x = v"
  by (induction d) auto

lemma dict_get_set_other: "k' \<noteq> k \<Longrightarrow> dict_get (dict_set d k v) k' x = dict_get d k' x"
  by (induction d) auto

lemma sum_dict_set:
  "sum_list (dict_values (dict_set d k (Suc (dict_get d k 0)))) = Suc (sum_list (dict_values d))"
  by (induction d) (auto simp: dict_values_def)

lemma sum_count_emotions:
  "sum_list (dict_values (count_emotions acc faces)) = sum_list (dict_values acc) + length faces"
  by (induction faces arbitrary: acc) (auto simp: sum_dict_set)

lemma get_count_emotions:
  "dict_get (count_emotions acc faces) e 0 = dict_get acc e 0 + length (filter (\<lambda>f. emotion_of f = e) faces)"
  by (induction faces arbitrary: acc) (auto simp: dict_get_set_same dict_get_set_other)

lemma dict_get_set_absent:
  "k \<notin> set (dict_keys r) \<Longrightarrow> dict_get (dict_set r k v) k' v = dict_get r k' v"
  by (induction r) (auto simp: dict_keys_def)

section \<open>One iteration\<close>

lemma process_frame_fields:
  "frames_read (process_frame lib frame s) = frames_read s @ [frame]"
  "written (process_frame lib frame s) = written s @ [fst (try_block lib frame)]"
  "frame_number (process_frame lib frame s) = Suc (frame_number s)"
  "progress_values (process_frame lib frame s) = progress_values s"
  "capture_released (process_frame lib frame s) = capture_released s"
  "output_released (process_frame lib frame s) = output_released s"
  "warnings (process_frame lib frame s) =
     warnings s @ (case snd (try_block lib frame) of None \<Rightarrow> [] | Some e \<Rightarrow> [warning_message (frame_number s) e])"
  by (auto simp: process_frame_def split: prod.splits option.splits)

lemma report_progress_cases:
  "report_progress lib fc s =
     (if fc = 0 then Inl (ZeroDivisionError, s)
      else case st_progress lib (of_nat (frame_number s) / of_int fc) of
             Some e \<Rightarrow> Inl (e, s\<lparr>progress_values := progress_values s @ [of_nat (frame_number s) / of_int fc]\<rparr>)
           | None \<Rightarrow> Inr (s\<lparr>progress_values := progress_values s @ [of_nat (frame_number s) / of_int fc]\<rparr>))"
  by (simp add: report_progress_def Let_def)

text \<open>
  What one iteration leaves behind, whether or not line 62 raised: the frame was read
  and written before it.
\<close>

lemma loop_state_loop_body:
  "frames_read (loop_state (loop_body lib fc frame s)) = frames_read s @ [frame]"
  "written (loop_state (loop_body lib fc frame s)) = written s @ [fst (try_block lib frame)]"
  "frame_number (loop_state (loop_body lib fc frame s)) = Suc (frame_number s)"
  "capture_released (loop_state (loop_body lib fc frame s)) = capture_released s"
  "output_released (loop_state (loop_body lib fc frame s)) = output_released s"
  by (auto simp: loop_body_def report_progress_cases process_frame_fields split: option.splits)

section \<open>The loop\<close>

text \<open>
  The loop processes a prefix of the frames, all of them when it ends without an
  exception; each processed frame is read once and written once, as the
  \<^verbatim>\<open>try\<close> statement left it.
\<close>

lemma streaming_processed:
  "\<exists>k\<le>length fs.
     frames_read (loop_state (streaming lib fc fs s)) = frames_read s @ take k fs \<and>
     written (loop_state (streaming lib fc fs s)) = written s @ map (\<lambda>f. fst (try_block lib f)) (take k fs) \<and>
     frame_number (loop_state (streaming lib fc fs s)) = frame_number s + k \<and>
     (\<not> isl (streaming lib fc fs s) \<longrightarrow> k = length fs)"
proof (induction fs arbitrary: s)
  case Nil
  then show ?case by simp
next
  case (Cons frame rest)
  show ?case
  proof (cases "loop_body lib fc frame s")
    case (Inl err)
    then have "loop_state (streaming lib fc (frame # rest) s) = loop_state (loop_body lib fc frame s)"
      and "isl (streaming lib fc (frame # rest) s)"
      by simp_all
    then show ?thesis
      by (intro exI [of _ 1]) (simp add: loop_state_loop_body)
  next
    case (Inr s1)
    then have eq: "streaming lib fc (frame # rest) s = streaming lib fc rest s1"
      by simp
    from Inr have s1: "s1 = loop_state (loop_body lib fc frame s)"
      by simp
    from Cons.IH [of s1] obtain k where k: "k \<le> length rest"
      "frames_read (loop_state (streaming lib fc rest s1)) = frames_read s1 @ take k rest"
      "written (loop_state (streaming lib fc rest s1)) = written s1 @ map (\<lambda>f. fst (try_block lib f)) (take k rest)"
      "frame_number (loop_state (streaming lib fc rest s1)) = frame_number s1 + k"
      "\<not> isl (streaming lib fc rest s1) \<longrightarrow> k = length rest"
      by blast
    show ?thesis
      unfolding eq using k
      by (intro exI [of _ "Suc k"]) (simp add: s1 loop_state_loop_body)
  qed
qed


lemma loop_body_progress_values:
  "fc \<noteq> 0 \<Longrightarrow>
     progress_values (loop_state (loop_body lib fc frame s)) =
       progress_values s @ [of_nat (Suc (frame_number s)) / of_int fc]"
  "fc = 0 \<Longrightarrow> progress_values (loop_state (loop_body lib fc frame s)) = progress_values s"
  by (auto simp: loop_body_def report_progress_cases process_frame_fields split: option.splits)

lemma loop_body_warnings:
  "warnings (loop_state (loop_body lib fc frame s)) =
     warnings s @ (case snd (try_block lib frame) of None \<Rightarrow> [] | Some e \<Rightarrow> [warning_message (frame_number s) e])"
  by (auto simp: loop_body_def report_progress_cases process_frame_fields split: option.splits)

lemma streaming_Cons_state:
  "loop_state (streaming lib fc (frame # rest) s) =
     (case loop_body lib fc frame s of
        Inl err \<Rightarrow> loop_state (loop_body lib fc frame s)
      | Inr s1 \<Rightarrow> loop_state (streaming lib fc rest s1))"
  by (simp split: sum.splits)

lemma streaming_frame_number_mono:
  "frame_number s \<le> frame_number (loop_state (streaming lib fc fs s))"
  using streaming_processed [of fs lib fc s] by auto

lemma streaming_released:
  "capture_released (loop_state (streaming lib fc fs s)) = capture_released s \<and>
   output_released (loop_state (streaming lib fc fs s)) = output_released s"
proof (induction fs arbitrary: s)
  case Nil
  then show ?case by simp
next
  case (Cons frame rest)
  show ?case
  proof (cases "loop_body lib fc frame s")
    case (Inl err)
    then show ?thesis
      using loop_state_loop_body(4,5) [of lib fc frame s] by (simp add: streaming_Cons_state)
  next
    case (Inr s1)
    then have "s1 = loop_state (loop_body lib fc frame s)" by simp
    then have "capture_released s1 = capture_released s" "output_released s1 = output_released s"
      by (simp_all add: loop_state_loop_body)
    then show ?thesis
      using Cons.IH [of s1] Inr by simp
  qed
qed

lemma streaming_progress_values:
  assumes "fc \<noteq> 0"
  shows "progress_values (loop_state (streaming lib fc fs s)) =
           progress_values s @
           map (\<lambda>n. of_nat n / of_int fc)
             [Suc (frame_number s) ..< Suc (frame_number (loop_state (streaming lib fc fs s)))]"
proof (induction fs arbitrary: s)
  case Nil
  then show ?case by simp
next
  case (Cons frame rest)
  show ?case
  proof (cases "loop_body lib fc frame s")
    case (Inl err)
    then have "loop_state (streaming lib fc (frame # rest) s) = loop_state (loop_body lib fc frame s)"
      by simp
    then show ?thesis
      using assms by (simp add: loop_body_progress_values loop_state_loop_body)
  next
    case (Inr s1)
    then have s1: "s1 = loop_state (loop_body lib fc frame s)" by simp
    have st: "streaming lib fc (frame # rest) s = streaming lib fc rest s1"
      using Inr by simp
    have fn: "frame_number s1 = Suc (frame_number s)"
      by (simp add: s1 loop_state_loop_body)
    have mono: "Suc (frame_number s) \<le> frame_number (loop_state (streaming lib fc rest s1))"
      using streaming_frame_number_mono [of s1 lib fc rest] fn by simp
    have pv: "progress_values s1 = progress_values s @ [of_nat (Suc (frame_number s)) / of_int fc]"
      using assms by (simp add: s1 loop_body_progress_values)
    show ?thesis
      unfolding st using Cons.IH [of s1] mono
      by (simp add: pv fn upt_conv_Cons)
  qed
qed

lemma streaming_no_progress_when_zero:
  "progress_values (loop_state (streaming lib 0 fs s)) = progress_values s"
  by (cases fs) (simp_all add: loop_body_def report_progress_cases process_frame_fields)

lemma streaming_returns:
  assumes "fc \<noteq> 0" and "\<And>v. st_progress lib v = None"
  shows "\<not> isl (streaming lib fc fs s)"
proof (induction fs arbitrary: s)
  case Nil
  then show ?case by simp
next
  case (Cons frame rest)
  have "\<exists>s1. loop_body lib fc frame s = Inr s1"
    using assms by (simp add: loop_body_def report_progress_cases)
  then show ?case
    using Cons.IH by auto
qed

text \<open>The final state of the whole function, in terms of the loop.\<close>

lemma final_state_fields:
  "frames_read (final_state (analyze_emotions lib cap path)) =
     (if isOpened cap then frames_read (loop_state (streaming lib (CAP_PROP_FRAME_COUNT cap) (frames cap) start)) else [])"
  "written (final_state (analyze_emotions lib cap path)) =
     (if isOpened cap then written (loop_state (streaming lib (CAP_PROP_FRAME_COUNT cap) (frames cap) start)) else [])"
  "frame_number (final_state (analyze_emotions lib cap path)) =
     (if isOpened cap then frame_number (loop_state (streaming lib (CAP_PROP_FRAME_COUNT cap) (frames cap) start)) else 0)"
  "progress_values (final_state (analyze_emotions lib cap path)) =
     (if isOpened cap then progress_values (loop_state (streaming lib (CAP_PROP_FRAME_COUNT cap) (frames cap) start)) else [])"
  "isl (analyze_emotions lib cap path) =
     (isOpened cap \<and> isl (streaming lib (CAP_PROP_FRAME_COUNT cap) (frames cap) start))"
  by (auto simp: analyze_emotions_def start_def split: sum.splits)

section \<open>The annotator, the detector and the text of a warning\<close>

lemma draw_face_ignores_detector:
  "draw_face (lib\<lparr>DeepFace_analyze := d\<rparr>) frame r emotion = draw_face lib frame r emotion"
  by (simp add: draw_face_def Let_def split: sum.splits)

lemma draw_emotions_ignores_detector:
  "draw_emotions_on_frame (lib\<lparr>DeepFace_analyze := d\<rparr>) frame faces = draw_emotions_on_frame lib frame faces"
  by (induction faces arbitrary: frame) (auto simp: draw_face_ignores_detector split: option.splits sum.splits)

text \<open>The annotator raises only when a drawing call does.\<close>

lemma draw_face_returns:
  assumes "\<And>f p q c t. \<not> isl (cv2_rectangle lib f p q c t)"
    and "\<And>f txt p fnt sc c t. \<not> isl (cv2_putText lib f txt p fnt sc c t)"
  shows "\<not> isl (draw_face lib frame r emotion)"
proof -
  obtain frame1 where r1: "cv2_rectangle lib frame (dict_get r ''x'' 0, dict_get r ''y'' 0)
      (dict_get r ''x'' 0 + dict_get r ''w'' 0, dict_get r ''y'' 0 + dict_get r ''h'' 0)
      (emotion_color emotion) 2 = Inr frame1"
    using assms(1) by (metis isl_def sum.exhaust)
  obtain frame2 where r2: "cv2_putText lib frame1 emotion (dict_get r ''x'' 0, dict_get r ''y'' 0 - 10)
      FONT_HERSHEY_SIMPLEX (9 / 10) (emotion_color emotion) 2 = Inr frame2"
    using assms(2) by (metis isl_def sum.exhaust)
  show ?thesis
    by (simp add: draw_face_def Let_def r1 r2)
qed

lemma draw_emotions_returns:
  assumes "\<And>f p q c t. \<not> isl (cv2_rectangle lib f p q c t)"
    and "\<And>f txt p fnt sc c t. \<not> isl (cv2_putText lib f txt p fnt sc c t)"
  shows "\<not> isl (draw_emotions_on_frame lib frame faces)"
proof (induction faces arbitrary: frame)
  case Nil
  then show ?case by simp
next
  case (Cons face rest)
  show ?case
  proof (cases "region face")
    case None
    then show ?thesis using Cons.IH by simp
  next
    case (Some r)
    have "\<not> isl (draw_face lib frame r (emotion_of face))"
      using assms by (rule draw_face_returns)
    then obtain frame' where "draw_face lib frame r (emotion_of face) = Inr frame'"
      by (metis isl_def sum.exhaust)
    then show ?thesis using Some Cons.IH by simp
  qed
qed

lemma draw_face_dict_set_absent:
  assumes "k \<notin> set (dict_keys r)"
  shows "draw_face lib frame (dict_set r k 0) emotion = draw_face lib frame r emotion"
  by (simp add: draw_face_def dict_get_set_absent [OF assms])

section \<open>What a run leaves behind\<close>

text \<open>
  In every run, returned or cut short by an exception, one frame has been written for
  each frame read, and \<^verbatim>\<open>frame_number\<close> is their number. A run that returns has
  read every frame of an opened capture.
\<close>

lemma final_state_counts:
  "frame_number (final_state (analyze_emotions lib cap path)) =
     length (written (final_state (analyze_emotions lib cap path)))"
  "length (frames_read (final_state (analyze_emotions lib cap path))) =
     length (written (final_state (analyze_emotions lib cap path)))"
  "length (written (final_state (analyze_emotions lib cap path))) \<le> length (frames cap)"
  "isOpened cap \<Longrightarrow> \<not> isl (analyze_emotions lib cap path) \<Longrightarrow>
     length (written (final_state (analyze_emotions lib cap path))) = length (frames cap)"
  using streaming_processed [of "frames cap" lib "CAP_PROP_FRAME_COUNT cap" start]
  by (auto simp: final_state_fields start_def)

lemma final_state_progress_values:
  assumes "CAP_PROP_FRAME_COUNT cap \<noteq> 0"
  shows "progress_values (final_state (analyze_emotions lib cap path)) =
           map (\<lambda>i. of_nat (i + 1) / of_int (CAP_PROP_FRAME_COUNT cap))
             [0 ..< length (written (final_state (analyze_emotions lib cap path)))]"
proof (cases "isOpened cap")
  case True
  let ?fc = "CAP_PROP_FRAME_COUNT cap"
  let ?s = "loop_state (streaming lib ?fc (frames cap) start)"
  have n: "frame_number ?s = length (written (final_state (analyze_emotions lib cap path)))"
    using final_state_counts(1) [of lib cap path] True by (simp add: final_state_fields)
  have "progress_values ?s =
      map (\<lambda>n. of_nat n / of_int ?fc) [Suc 0 ..< Suc (frame_number ?s)]"
    using streaming_progress_values [OF assms, of lib "frames cap" start] by (simp add: start_def)
  also have "[Suc 0 ..< Suc (frame_number ?s)] = map Suc [0 ..< frame_number ?s]"
    by (simp only: map_Suc_upt)
  finally have "progress_values ?s =
      map (\<lambda>i. of_nat (i + 1) / of_int ?fc) [0 ..< frame_number ?s]"
    by (simp add: comp_def)
  then show ?thesis
    using True n by (simp add: final_state_fields)
next
  case False
  then show ?thesis
    by (simp add: final_state_fields)
qed

lemma returned_run_writes_every_frame:
  assumes "isOpened cap" and "\<not> isl (analyze_emotions lib cap path)"
  shows "written (final_state (analyze_emotions lib cap path)) =
           map (\<lambda>f. fst (try_block lib f)) (frames cap)"
  using streaming_processed [of "frames cap" lib "CAP_PROP_FRAME_COUNT cap" start] assms
  by (auto simp: final_state_fields start_def)

lemma frame_without_faces_is_unchanged:
  "DeepFace_analyze lib frame = Inr (Many []) \<Longrightarrow> try_block lib frame = (frame, None)"
  by (simp add: try_block_def)

lemma returned_run_without_faces_copies_the_video:
  assumes "isOpened cap" and "\<not> isl (analyze_emotions lib cap path)"
    and "\<And>f. f \<in> set (frames cap) \<Longrightarrow> DeepFace_analyze lib f = Inr (Many [])"
  shows "written (final_state (analyze_emotions lib cap path)) = frames cap"
proof -
  have "map (\<lambda>f. fst (try_block lib f)) (frames cap) = map (\<lambda>f. f) (frames cap)"
    by (rule map_cong) (simp_all add: assms(3) frame_without_faces_is_unchanged)
  then show ?thesis
    using returned_run_writes_every_frame [OF assms(1,2)] by simp
qed

text \<open>Nothing in the loop releases a handle, so a run that raised has released none.\<close>

lemma raised_run_releases_nothing:
  assumes "isl (analyze_emotions lib cap path)"
  shows "\<not> capture_released (final_state (analyze_emotions lib cap path))
         \<and> \<not> output_released (final_state (analyze_emotions lib cap path))"
proof -
  let ?out = "streaming lib (CAP_PROP_FRAME_COUNT cap) (frames cap) start"
  from assms have opened: "isOpened cap" and raised: "isl ?out"
    by (simp_all add: final_state_fields)
  from raised obtain e s where out: "?out = Inl (e, s)"
    by (cases ?out) auto
  have "\<not> capture_released (loop_state ?out)" and "\<not> output_released (loop_state ?out)"
    using streaming_released [of lib "CAP_PROP_FRAME_COUNT cap" "frames cap" start]
    by (simp_all add: start_def)
  then have "\<not> capture_released s" and "\<not> output_released s"
    by (simp_all add: out)
  then show ?thesis
    using opened out by (simp add: analyze_emotions_def)
qed

text \<open>
  An iteration ends in an exception exactly when line 62 raises: the division, or the
  widget on the value it is given. So the loop, and the function, return exactly when
  no progress report raises, whatever the detector and the annotator do.
\<close>

lemma loop_body_returns_iff:
  "\<not> isl (loop_body lib fc frame s) \<longleftrightarrow>
     fc \<noteq> 0 \<and> st_progress lib (of_nat (Suc (frame_number s)) / of_int fc) = None"
  by (auto simp: loop_body_def report_progress_cases process_frame_fields split: option.splits)

lemma streaming_returns_iff:
  "\<not> isl (streaming lib fc fs s) \<longleftrightarrow>
     (\<forall>i<length fs. fc \<noteq> 0 \<and> st_progress lib (of_nat (frame_number s + i + 1) / of_int fc) = None)"
proof (induction fs arbitrary: s)
  case Nil
  then show ?case by simp
next
  case (Cons frame rest)
  show ?case
  proof (cases "loop_body lib fc frame s")
    case (Inl err)
    then have "isl (loop_body lib fc frame s)" by simp
    then have "\<not> (fc \<noteq> 0 \<and> st_progress lib (of_nat (frame_number s + 0 + 1) / of_int fc) = None)"
      using loop_body_returns_iff [of lib fc frame s] by simp
    then have "\<not> (\<forall>i<length (frame # rest).
        fc \<noteq> 0 \<and> st_progress lib (of_nat (frame_number s + i + 1) / of_int fc) = None)"
      by (metis length_greater_0_conv list.distinct(1))
    then show ?thesis using Inl by simp
  next
    case (Inr s1)
    then have first: "fc \<noteq> 0 \<and> st_progress lib (of_nat (Suc (frame_number s)) / of_int fc) = None"
      using loop_body_returns_iff [of lib fc frame s] by simp
    from Inr have "s1 = loop_state (loop_body lib fc frame s)" by simp
    then have fn: "frame_number s1 = Suc (frame_number s)"
      by (simp add: loop_state_loop_body)
    have "(\<forall>i<length (frame # rest).
        fc \<noteq> 0 \<and> st_progress lib (of_nat (frame_number s + i + 1) / of_int fc) = None)
      \<longleftrightarrow> (\<forall>i<length rest.
        fc \<noteq> 0 \<and> st_progress lib (of_nat (frame_number s1 + i + 1) / of_int fc) = None)"
      using first by (simp add: fn All_less_Suc2)
    then show ?thesis
      using Inr Cons.IH [of s1] by simp
  qed
qed

lemma analyze_emotions_returns_iff:
  "\<not> isl (analyze_emotions lib cap path) \<longleftrightarrow>
     (isOpened cap \<longrightarrow>
        (\<forall>i<length (frames cap). CAP_PROP_FRAME_COUNT cap \<noteq> 0 \<and>
           st_progress lib (of_nat (i + 1) / of_int (CAP_PROP_FRAME_COUNT cap)) = None))"
  using streaming_returns_iff [of lib "CAP_PROP_FRAME_COUNT cap" "frames cap" start]
  by (simp add: final_state_fields start_def)

lemma detector_error_is_logged_and_frame_written:
  assumes "DeepFace_analyze lib frame = Inl e"
  shows "process_frame lib frame s =
           s\<lparr>frames_read := frames_read s @ [frame],
             warnings := warnings s @
               [''Erro ao processar o frame '' @ str_nat (frame_number s) @ '': '' @ str_exn e],
             written := written s @ [frame],
             frame_number := frame_number s + 1\<rparr>"
proof -
  have "try_block lib frame = (frame, Some e)"
    using assms by (simp add: try_block_def)
  then show ?thesis
    by (simp add: process_frame_def warning_message_def)
qed

lemma iteration_raises_only_at_line_62:
  assumes "loop_body lib frame_count frame s = Inl (x, s')"
  shows "frame_count = 0 \<and> x = ZeroDivisionError
         \<or> st_progress lib (of_nat (frame_number s + 1) / of_int frame_count) = Some x"
  using assms
  by (auto simp: loop_body_def report_progress_cases process_frame_fields split: if_splits option.splits)

text \<open>
  One record with a region raises exactly when one of its two drawing calls does, and
  the \<^verbatim>\<open>try\<close> statement leaves the frame as the annotator left it.
\<close>

lemma draw_face_raises_iff:
  "isl (draw_face lib frame r emotion) \<longleftrightarrow>
     isl (cv2_rectangle lib frame (dict_get r ''x'' 0, dict_get r ''y'' 0)
            (dict_get r ''x'' 0 + dict_get r ''w'' 0, dict_get r ''y'' 0 + dict_get r ''h'' 0)
            (emotion_color emotion) 2)
     \<or> (\<exists>frame1.
          cv2_rectangle lib frame (dict_get r ''x'' 0, dict_get r ''y'' 0)
            (dict_get r ''x'' 0 + dict_get r ''w'' 0, dict_get r ''y'' 0 + dict_get r ''h'' 0)
            (emotion_color emotion) 2 = Inr frame1
          \<and> isl (cv2_putText lib frame1 emotion (dict_get r ''x'' 0, dict_get r ''y'' 0 - 10)
                 FONT_HERSHEY_SIMPLEX (9 / 10) (emotion_color emotion) 2))"
  by (auto simp: draw_face_def Let_def split: sum.splits)

lemma try_block_after_detection:
  assumes "DeepFace_analyze lib frame = Inr a"
  shows "fst (try_block lib frame) =
           (case draw_emotions_on_frame lib frame (analysis_list a) of
              Inl (e, frame') \<Rightarrow> frame' | Inr frame' \<Rightarrow> frame')"
    and "snd (try_block lib frame) =
           (case draw_emotions_on_frame lib frame (analysis_list a) of
              Inl (e, frame') \<Rightarrow> Some e | Inr frame' \<Rightarrow> None)"
  using assms by (auto simp: try_block_def split: sum.splits)

text \<open>The definitions that a concrete run unfolds.\<close>

lemmas run_defs =
  analyze_emotions_def loop_body_def report_progress_def process_frame_def try_block_def
  draw_face_def emotion_of_def emotion_color_def EMOTIONS_COLORS_def warning_message_def
  canvas_lib_def c_int_lib_def fits_c_int_def unit_interval_progress_def any_progress_def
  start_def Let_def

section \<open>The claims\<close>

text \<open>
  C1. A run over three readable frames whose container reports a frame count of 0: the
  first frame is read, its detection raises and is logged, the frame is written, and
  the division of line 62 raises \<open>ZeroDivisionError\<close>. One frame has been written, not
  three.
\<close>

theorem C1_run_stops_after_first_frame:
  "analyze_emotions
       (canvas_lib (\<lambda>f. Inl (LibraryError ''no image'')) unit_interval_progress)
       \<lparr>isOpened = True, frames = [(0, []), (1, []), (2, [])], CAP_PROP_FRAME_COUNT = 0\<rparr>
       ''processed_video.mp4''
     = Inl (ZeroDivisionError,
            \<lparr>frames_read = [(0, [])], written = [(0, [])], frame_number = 1,
             progress_values = [], warnings = [''Erro ao processar o frame 0: no image''],
             capture_released = False, output_released = False\<rparr>)"
  by (simp add: run_defs str_nat.simps digit_char_def)

text \<open>
  C2. A label that is not a key of \<^verbatim>\<open>EMOTIONS_COLORS\<close> is drawn with the default of
  the lookup, (255, 255, 255), which is not the colour of the table's
  \<^verbatim>\<open>"Unknown"\<close> entry, (128, 128, 128); the bar chart gives the same label the colour
  name gray.
\<close>

theorem C2_unlisted_label_is_drawn_white:
  "emotion_color ''contempt'' = (255, 255, 255)
   \<and> emotion_color ''Unknown'' = (128, 128, 128)
   \<and> draw_emotions_on_frame (canvas_lib (\<lambda>f. Inr (Many [])) unit_interval_progress) (0, [])
       [\<lparr>region = Some [(''x'', 10), (''y'', 20), (''w'', 30), (''h'', 40)],
         dominant_emotion = Some ''contempt''\<rparr>]
     = Inr (0, [Rectangle (10, 20) (40, 60) (255, 255, 255) 2,
                Text ''contempt'' (10, 10) FONT_HERSHEY_SIMPLEX (9 / 10) (255, 255, 255) 2])
   \<and> plot_emotion_distribution [\<lparr>region = None, dominant_emotion = Some ''contempt''\<rparr>]
     = [(''contempt'', 1, Named_color ''gray'')]"
  by (simp add: run_defs plot_emotion_distribution_def emotion_counts_def)

text \<open>
  C3, as the code has it. When the reported frame count is positive, the value passed
  to the progress bar after frame \<open>i\<close> (from 0) is \<open>(i + 1) / frame_count\<close>, with no
  saturation, one value for each frame written. The values increase strictly. They
  stay at or below 1 when the frame count is at least the number of frames, and the
  last one is 1 when a run returns from a video of exactly \<open>frame_count\<close> frames; value
  \<open>i\<close> is above 1 exactly when \<open>i + 1\<close> is above the frame count.
\<close>

theorem C3_progress_is_the_plain_quotient:
  assumes "0 < CAP_PROP_FRAME_COUNT cap"
  shows "progress_values (final_state (analyze_emotions lib cap path)) =
           map (\<lambda>i. of_nat (i + 1) / of_int (CAP_PROP_FRAME_COUNT cap))
             [0 ..< length (written (final_state (analyze_emotions lib cap path)))]
         \<and> sorted_wrt (<) (progress_values (final_state (analyze_emotions lib cap path)))
         \<and> (int (length (frames cap)) \<le> CAP_PROP_FRAME_COUNT cap \<longrightarrow>
              (\<forall>v \<in> set (progress_values (final_state (analyze_emotions lib cap path))). v \<le> 1))
         \<and> (isOpened cap \<and> \<not> isl (analyze_emotions lib cap path) \<and> frames cap \<noteq> [] \<and>
              CAP_PROP_FRAME_COUNT cap = int (length (frames cap)) \<longrightarrow>
              last (progress_values (final_state (analyze_emotions lib cap path))) = 1)
         \<and> (\<forall>i < length (progress_values (final_state (analyze_emotions lib cap path))).
              1 < progress_values (final_state (analyze_emotions lib cap path)) ! i
                \<longleftrightarrow> CAP_PROP_FRAME_COUNT cap < int (i + 1))"
proof -
  let ?fc = "CAP_PROP_FRAME_COUNT cap"
  let ?vs = "progress_values (final_state (analyze_emotions lib cap path))"
  let ?n = "length (written (final_state (analyze_emotions lib cap path)))"
  have pos: "(0::rat) < of_int ?fc"
    using assms by simp
  have vs: "?vs = map (\<lambda>i. of_nat (i + 1) / of_int ?fc) [0 ..< ?n]"
    using assms by (intro final_state_progress_values) simp
  have len: "length ?vs = ?n"
    by (subst vs) simp
  have nth: "?vs ! i = of_nat (i + 1) / of_int ?fc" if "i < ?n" for i
    using that by (subst vs) simp
  have increasing: "sorted_wrt (<) ?vs"
  proof -
    have "?vs ! i < ?vs ! j" if "i < j" "j < length ?vs" for i j
    proof -
      have "(of_nat (i + 1) :: rat) < of_nat (j + 1)"
        using that by simp
      then have "(of_nat (i + 1) :: rat) / of_int ?fc < of_nat (j + 1) / of_int ?fc"
        using pos by (simp add: divide_strict_right_mono)
      then show ?thesis
        using that len nth [of i] nth [of j] by simp
    qed
    then show ?thesis
      by (simp add: sorted_wrt_iff_nth_less)
  qed
  have exceeds: "1 < ?vs ! i \<longleftrightarrow> ?fc < int (i + 1)" if "i < length ?vs" for i
  proof -
    have "(1 < (of_nat (i + 1) :: rat) / of_int ?fc) \<longleftrightarrow> (of_int ?fc :: rat) < of_nat (i + 1)"
      using pos by (simp add: less_divide_eq)
    also have "\<dots> \<longleftrightarrow> (of_int ?fc :: rat) < of_int (int (i + 1))"
      by simp
    also have "\<dots> \<longleftrightarrow> ?fc < int (i + 1)"
      by (simp only: of_int_less_iff)
    finally show ?thesis
      using that len nth [of i] by simp
  qed
  have bounded: "\<forall>v \<in> set ?vs. v \<le> 1" if enough: "int (length (frames cap)) \<le> ?fc"
  proof
    fix v assume "v \<in> set ?vs"
    then obtain i where i: "i < length ?vs" "v = ?vs ! i"
      by (auto simp: in_set_conv_nth)
    have "?n \<le> length (frames cap)"
      by (rule final_state_counts(3))
    then have "\<not> ?fc < int (i + 1)"
      using i(1) len enough by simp
    then show "v \<le> 1"
      using exceeds [OF i(1)] i(2) by simp
  qed
  have ends: "last ?vs = 1"
    if "isOpened cap" "\<not> isl (analyze_emotions lib cap path)" "frames cap \<noteq> []"
      "?fc = int (length (frames cap))"
  proof -
    have n: "?n = length (frames cap)"
      using that(1,2) by (rule final_state_counts(4))
    then have "?vs \<noteq> []"
      using len that(3) by auto
    then have "last ?vs = ?vs ! (?n - 1)"
      using len by (simp add: last_conv_nth)
    also have "\<dots> = of_nat ?n / of_int ?fc"
      using nth [of "?n - 1"] n that(3) by simp
    also have "\<dots> = 1"
      using n that(3,4) by simp
    finally show ?thesis .
  qed
  show ?thesis
    using vs increasing bounded ends exceeds by blast
qed

theorem C3_progress_is_the_plain_quotient_witness:
  "0 < CAP_PROP_FRAME_COUNT
         \<lparr>isOpened = True, frames = [(0::nat, []::draw_op list), (1, [])], CAP_PROP_FRAME_COUNT = 2\<rparr>
   \<and> progress_values (final_state (analyze_emotions
         (canvas_lib (\<lambda>f. Inr (Many [])) unit_interval_progress)
         \<lparr>isOpened = True, frames = [(0, []), (1, [])], CAP_PROP_FRAME_COUNT = 2\<rparr>
         ''processed_video.mp4'')) = [1 / 2, 1]"
proof -
  let ?cap = "\<lparr>isOpened = True, frames = [(0::nat, []::draw_op list), (1, [])], CAP_PROP_FRAME_COUNT = 2\<rparr>"
  let ?lib = "canvas_lib (\<lambda>f. Inr (Many [])) unit_interval_progress"
  have positive: "0 < CAP_PROP_FRAME_COUNT ?cap"
    by simp
  have wrote: "written (final_state (analyze_emotions ?lib ?cap ''processed_video.mp4'')) = [(0, []), (1, [])]"
    by (simp add: run_defs)
  from C3_progress_is_the_plain_quotient [OF positive, of ?lib "''processed_video.mp4''"]
  have "progress_values (final_state (analyze_emotions ?lib ?cap ''processed_video.mp4'')) =
      map (\<lambda>i. of_nat (i + 1) / of_int (CAP_PROP_FRAME_COUNT ?cap))
        [0 ..< length (written (final_state (analyze_emotions ?lib ?cap ''processed_video.mp4'')))]"
    by blast
  then have "progress_values (final_state (analyze_emotions ?lib ?cap ''processed_video.mp4'')) =
      map (\<lambda>i. of_nat (i + 1) / of_int (CAP_PROP_FRAME_COUNT ?cap)) [0 ..< length [(0::nat, []::draw_op list), (1, [])]]"
    by (simp only: wrote)
  then have "progress_values (final_state (analyze_emotions ?lib ?cap ''processed_video.mp4'')) = [1 / 2, 1]"
    by (simp add: upt_rec)
  with positive show ?thesis by blast
qed

text \<open>
  C3 as stated fails: with a frame count of 1 and two frames, the second value passed
  is 2, under a widget that takes every value and under one that raises outside 0..1
  (the run then ends with that exception).
\<close>

theorem C3_no_saturation_counterexample:
  "progress_values (final_state (analyze_emotions
       (canvas_lib (\<lambda>f. Inr (Many [])) any_progress)
       \<lparr>isOpened = True, frames = [(0, []), (1, [])], CAP_PROP_FRAME_COUNT = 1\<rparr>
       ''processed_video.mp4'')) = [1, 2]
   \<and> analyze_emotions
       (canvas_lib (\<lambda>f. Inr (Many [])) unit_interval_progress)
       \<lparr>isOpened = True, frames = [(0, []), (1, [])], CAP_PROP_FRAME_COUNT = 1\<rparr>
       ''processed_video.mp4''
     = Inl (LibraryError ''Progress Value has invalid value'',
            \<lparr>frames_read = [(0, []), (1, [])], written = [(0, []), (1, [])], frame_number = 2,
             progress_values = [1, 2], warnings = [],
             capture_released = False, output_released = False\<rparr>)"
  by (simp add: run_defs)

text \<open>
  C4, as the code has it. The tally of a sequence of records counts every record once:
  the counts add up to the number of records, which for the records of several frames
  is the sum of the frames' numbers of records and not the number of frames; the count
  under a label is the number of records with that label.
\<close>

theorem C4_tally_counts_every_record:
  "sum_list (dict_values (emotion_counts emotion_data)) = length emotion_data
   \<and> sum_list (dict_values (emotion_counts (concat per_frame))) = sum_list (map length per_frame)
   \<and> dict_get (emotion_counts emotion_data) emotion 0 =
       length (filter (\<lambda>face. emotion_of face = emotion) emotion_data)"
proof -
  have total: "sum_list (dict_values (emotion_counts faces)) = length faces" for faces
    using sum_count_emotions [of "[]" faces] by (simp add: emotion_counts_def dict_values_def)
  have "dict_get (emotion_counts emotion_data) emotion 0 =
       length (filter (\<lambda>face. emotion_of face = emotion) emotion_data)"
    by (simp add: emotion_counts_def get_count_emotions)
  then show ?thesis
    by (simp add: total length_concat)
qed

text \<open>
  C4 as stated fails: \<^verbatim>\<open>analyze_emotions\<close> calls neither tally function and keeps no
  histogram. A run on which the detector finds no record and a run on which it finds
  one end in the same result, though the tallies of their records differ.
\<close>

theorem C4_run_keeps_no_tally_counterexample:
  "analyze_emotions
       (canvas_lib (\<lambda>f. Inr (Many [])) unit_interval_progress)
       \<lparr>isOpened = True, frames = [(0, [])], CAP_PROP_FRAME_COUNT = 1\<rparr> ''processed_video.mp4''
   = analyze_emotions
       (canvas_lib (\<lambda>f. Inr (Many [\<lparr>region = None, dominant_emotion = Some ''happy''\<rparr>])) unit_interval_progress)
       \<lparr>isOpened = True, frames = [(0, [])], CAP_PROP_FRAME_COUNT = 1\<rparr> ''processed_video.mp4''
   \<and> emotion_counts (analysis_list (Many [])) = []
   \<and> emotion_counts (analysis_list (Many [\<lparr>region = None, dominant_emotion = Some ''happy''\<rparr>]))
       = [(''happy'', 1)]"
  by (simp add: run_defs emotion_counts_def)

text \<open>
  C5. A run over two readable frames whose container reports a frame count of 0, the
  detector raising on the first frame: the exception is caught, the warning names
  frame 0 and the exception's text, and the frame is written as it was read; then the
  division of line 62 raises \<open>ZeroDivisionError\<close>. The loop does not go on to the
  next frame: the second frame is never read.
\<close>

theorem C5_run_stops_after_the_logged_frame:
  "analyze_emotions
       (canvas_lib (\<lambda>f. if fst f = 0 then Inl (LibraryError ''no image'') else Inr (Many []))
          unit_interval_progress)
       \<lparr>isOpened = True, frames = [(0, []), (1, [])], CAP_PROP_FRAME_COUNT = 0\<rparr>
       ''processed_video.mp4''
     = Inl (ZeroDivisionError,
            \<lparr>frames_read = [(0, [])], written = [(0, [])], frame_number = 1,
             progress_values = [], warnings = [''Erro ao processar o frame 0: no image''],
             capture_released = False, output_released = False\<rparr>)"
  by (simp add: run_defs str_nat.simps digit_char_def)

text \<open>
  C6, as the code has it. When no progress report raises, that is when the capture is
  not opened, or the frame count is not 0 and the widget takes \<open>(i + 1) / frame_count\<close>
  for each frame \<open>i\<close> of the video, \<^verbatim>\<open>analyze_emotions\<close> returns the output path with both
  \<^verbatim>\<open>release()\<close> calls made and one frame written for each frame read, whatever the
  detector and the annotator raised on the way. When the function ends in an
  exception, neither handle has been released.
\<close>

theorem C6_released_when_no_progress_report_raises:
  "((isOpened cap \<longrightarrow>
       (\<forall>i<length (frames cap). CAP_PROP_FRAME_COUNT cap \<noteq> 0 \<and>
          st_progress lib (of_nat (i + 1) / of_int (CAP_PROP_FRAME_COUNT cap)) = None))
     \<longrightarrow> (\<exists>s. analyze_emotions lib cap path = Inr (path, s)
              \<and> capture_released s \<and> output_released s
              \<and> length (written s) = length (frames_read s)))
   \<and> (isl (analyze_emotions lib cap path) \<longrightarrow>
        \<not> capture_released (final_state (analyze_emotions lib cap path))
        \<and> \<not> output_released (final_state (analyze_emotions lib cap path)))"
proof -
  have returned: "\<exists>s. analyze_emotions lib cap path = Inr (path, s)
              \<and> capture_released s \<and> output_released s
              \<and> length (written s) = length (frames_read s)"
    if accepted: "isOpened cap \<longrightarrow>
       (\<forall>i<length (frames cap). CAP_PROP_FRAME_COUNT cap \<noteq> 0 \<and>
          st_progress lib (of_nat (i + 1) / of_int (CAP_PROP_FRAME_COUNT cap)) = None)"
  proof -
    from accepted have "\<not> isl (analyze_emotions lib cap path)"
      by (simp only: analyze_emotions_returns_iff)
    then obtain p s where out: "analyze_emotions lib cap path = Inr (p, s)"
      by (cases "analyze_emotions lib cap path") auto
    then have "p = path" and "capture_released s" and "output_released s"
      by (auto simp: analyze_emotions_def split: if_splits sum.splits)
    moreover have "length (written s) = length (frames_read s)"
      using final_state_counts(2) [of lib cap path] out by simp
    ultimately show ?thesis
      using out by blast
  qed
  from returned raised_run_releases_nothing [of lib cap path] show ?thesis
    by blast
qed

theorem C6_released_when_no_progress_report_raises_witness:
  "st_progress (canvas_lib (\<lambda>f. if fst f = 0 then Inl (LibraryError ''no image'') else Inr (Many []))
       unit_interval_progress) (1 / 2) = None
   \<and> st_progress (canvas_lib (\<lambda>f. if fst f = 0 then Inl (LibraryError ''no image'') else Inr (Many []))
       unit_interval_progress) 1 = None
   \<and> (\<exists>s. analyze_emotions
         (canvas_lib (\<lambda>f. if fst f = 0 then Inl (LibraryError ''no image'') else Inr (Many []))
            unit_interval_progress)
         \<lparr>isOpened = True, frames = [(0, []), (1, [])], CAP_PROP_FRAME_COUNT = 2\<rparr>
         ''processed_video.mp4'' = Inr (''processed_video.mp4'', s)
       \<and> capture_released s \<and> output_released s)
   \<and> isl (analyze_emotions
         (canvas_lib (\<lambda>f. if fst f = 0 then Inl (LibraryError ''no image'') else Inr (Many []))
            unit_interval_progress)
         \<lparr>isOpened = True, frames = [(0, []), (1, []), (2, [])], CAP_PROP_FRAME_COUNT = 2\<rparr>
         ''processed_video.mp4'')
   \<and> \<not> output_released (final_state (analyze_emotions
         (canvas_lib (\<lambda>f. if fst f = 0 then Inl (LibraryError ''no image'') else Inr (Many []))
            unit_interval_progress)
         \<lparr>isOpened = True, frames = [(0, []), (1, []), (2, [])], CAP_PROP_FRAME_COUNT = 2\<rparr>
         ''processed_video.mp4''))"
proof -
  let ?lib = "canvas_lib (\<lambda>f. if fst f = 0 then Inl (LibraryError ''no image'') else Inr (Many []))
      unit_interval_progress"
  let ?cap = "\<lparr>isOpened = True, frames = [(0::nat, []::draw_op list), (1, [])], CAP_PROP_FRAME_COUNT = 2\<rparr>"
  let ?long = "\<lparr>isOpened = True, frames = [(0::nat, []::draw_op list), (1, []), (2, [])],
      CAP_PROP_FRAME_COUNT = 2\<rparr>"
  have half: "st_progress ?lib (1 / 2) = None" and whole: "st_progress ?lib 1 = None"
    by (simp_all add: canvas_lib_def unit_interval_progress_def)
  have accepted: "isOpened ?cap \<longrightarrow>
       (\<forall>i<length (frames ?cap). CAP_PROP_FRAME_COUNT ?cap \<noteq> 0 \<and>
          st_progress ?lib (of_nat (i + 1) / of_int (CAP_PROP_FRAME_COUNT ?cap)) = None)"
    using half whole by (auto simp: less_Suc_eq)
  from C6_released_when_no_progress_report_raises [of ?cap ?lib "''processed_video.mp4''"] accepted
  have returned: "\<exists>s. analyze_emotions ?lib ?cap ''processed_video.mp4'' = Inr (''processed_video.mp4'', s)
       \<and> capture_released s \<and> output_released s"
    by blast
  have raised: "isl (analyze_emotions ?lib ?long ''processed_video.mp4'')"
    by (simp add: run_defs)
  from C6_released_when_no_progress_report_raises [of ?long ?lib "''processed_video.mp4''"] raised
  have "\<not> output_released (final_state (analyze_emotions ?lib ?long ''processed_video.mp4''))"
    by blast
  with half whole returned raised show ?thesis
    by blast
qed

text \<open>
  C6 as stated fails: an exception raised inside the loop leaves the function before
  the two \<^verbatim>\<open>release()\<close> calls, be it the division's or the progress widget's.
\<close>

theorem C6_exception_skips_release_counterexample:
  "analyze_emotions
       (canvas_lib (\<lambda>f. Inr (Many [])) unit_interval_progress)
       \<lparr>isOpened = True, frames = [(0, [])], CAP_PROP_FRAME_COUNT = 0\<rparr>
       ''processed_video.mp4''
     = Inl (ZeroDivisionError,
            \<lparr>frames_read = [(0, [])], written = [(0, [])], frame_number = 1,
             progress_values = [], warnings = [],
             capture_released = False, output_released = False\<rparr>)
   \<and> analyze_emotions
       (canvas_lib (\<lambda>f. Inr (Many [])) unit_interval_progress)
       \<lparr>isOpened = True, frames = [(0, []), (1, []), (2, [])], CAP_PROP_FRAME_COUNT = 1\<rparr>
       ''processed_video.mp4''
     = Inl (LibraryError ''Progress Value has invalid value'',
            \<lparr>frames_read = [(0, []), (1, [])], written = [(0, []), (1, [])], frame_number = 2,
             progress_values = [1, 2], warnings = [],
             capture_released = False, output_released = False\<rparr>)"
  by (simp add: run_defs)

text \<open>
  C7. A run over two readable frames whose container reports a frame count of 0, the
  detector finding no face: the first frame is written unchanged and line 62 raises,
  so the output holds one frame of the two.
\<close>

theorem C7_output_is_cut_short:
  "written (final_state (analyze_emotions
       (canvas_lib (\<lambda>f. Inr (Many [])) unit_interval_progress)
       \<lparr>isOpened = True, frames = [(0, []), (1, [])], CAP_PROP_FRAME_COUNT = 0\<rparr>
       ''processed_video.mp4'')) = [(0, [])]
   \<and> isl (analyze_emotions
       (canvas_lib (\<lambda>f. Inr (Many [])) unit_interval_progress)
       \<lparr>isOpened = True, frames = [(0, []), (1, [])], CAP_PROP_FRAME_COUNT = 0\<rparr>
       ''processed_video.mp4'')"
  by (simp add: run_defs)

text \<open>
  C8. When the detector returns a single record, the \<^verbatim>\<open>try\<close> statement hands the
  annotator the one-element list of that record: the frame is processed exactly as if
  the detector had returned that list.
\<close>

theorem C8_single_record_becomes_list:
  assumes "DeepFace_analyze lib frame = Inr (Single face)"
  shows "try_block lib frame =
           (case draw_emotions_on_frame lib frame [face] of
              Inl (e, frame') \<Rightarrow> (frame', Some e)
            | Inr frame' \<Rightarrow> (frame', None))
         \<and> process_frame lib frame s =
             process_frame (lib\<lparr>DeepFace_analyze := \<lambda>f. Inr (Many [face])\<rparr>) frame s"
proof -
  let ?lib' = "lib\<lparr>DeepFace_analyze := \<lambda>f. Inr (Many [face])\<rparr>"
  have shape: "try_block lib frame =
           (case draw_emotions_on_frame lib frame [face] of
              Inl (e, frame') \<Rightarrow> (frame', Some e)
            | Inr frame' \<Rightarrow> (frame', None))"
    using assms by (simp only: try_block_def sum.case analysis_list.simps)
  have "try_block ?lib' frame =
           (case draw_emotions_on_frame ?lib' frame [face] of
              Inl (e, frame') \<Rightarrow> (frame', Some e)
            | Inr frame' \<Rightarrow> (frame', None))"
    by (simp add: try_block_def)
  then have "try_block ?lib' frame = try_block lib frame"
    by (simp only: shape draw_emotions_ignores_detector)
  then have "process_frame lib frame s = process_frame ?lib' frame s"
    by (simp only: process_frame_def)
  with shape show ?thesis by blast
qed

theorem C8_single_record_becomes_list_witness:
  "DeepFace_analyze
     (canvas_lib (\<lambda>f. Inr (Single \<lparr>region = Some [(''x'', 40), (''y'', 30), (''w'', 20), (''h'', 10)],
                                    dominant_emotion = Some ''sad''\<rparr>)) unit_interval_progress) (0, [])
     = Inr (Single \<lparr>region = Some [(''x'', 40), (''y'', 30), (''w'', 20), (''h'', 10)],
                    dominant_emotion = Some ''sad''\<rparr>)
   \<and> try_block
       (canvas_lib (\<lambda>f. Inr (Single \<lparr>region = Some [(''x'', 40), (''y'', 30), (''w'', 20), (''h'', 10)],
                                      dominant_emotion = Some ''sad''\<rparr>)) unit_interval_progress) (0, [])
     = ((0, [Rectangle (40, 30) (60, 40) (255, 0, 0) 2,
             Text ''sad'' (40, 20) FONT_HERSHEY_SIMPLEX (9 / 10) (255, 0, 0) 2]), None)"
proof -
  let ?face = "\<lparr>region = Some [(''x'', 40), (''y'', 30), (''w'', 20), (''h'', 10)],
                dominant_emotion = Some ''sad''\<rparr>"
  let ?lib = "canvas_lib (\<lambda>f. Inr (Single ?face)) unit_interval_progress"
  have detected: "DeepFace_analyze ?lib (0, []) = Inr (Single ?face)"
    by (simp add: canvas_lib_def)
  have drawn: "draw_emotions_on_frame ?lib (0, []) [?face] =
      Inr (0, [Rectangle (40, 30) (60, 40) (255, 0, 0) 2,
               Text ''sad'' (40, 20) FONT_HERSHEY_SIMPLEX (9 / 10) (255, 0, 0) 2])"
    by (simp add: canvas_lib_def draw_face_def Let_def emotion_of_def emotion_color_def
        EMOTIONS_COLORS_def)
  from C8_single_record_becomes_list [OF detected, of start]
  have "try_block ?lib (0, []) =
      (case draw_emotions_on_frame ?lib (0, []) [?face] of
         Inl (e, frame') \<Rightarrow> (frame', Some e)
       | Inr frame' \<Rightarrow> (frame', None))"
    by blast
  then have "try_block ?lib (0, []) =
      ((0, [Rectangle (40, 30) (60, 40) (255, 0, 0) 2,
            Text ''sad'' (40, 20) FONT_HERSHEY_SIMPLEX (9 / 10) (255, 0, 0) 2]), None)"
    by (simp only: drawn sum.case)
  with detected show ?thesis by blast
qed

text \<open>
  C9, as the code has it. For a detection whose region lies partly or wholly outside
  a frame of \<open>width\<close> by \<open>height\<close> pixels, the annotator passes the coordinates to
  \<^verbatim>\<open>cv2.rectangle\<close> and \<^verbatim>\<open>cv2.putText\<close> as they are, without clamping, and raises on
  that detection exactly when one of the two calls raises. Whether or not the
  annotator raised on the frame's detections, the iteration writes the frame as the
  annotator left it to the sink, before the progress report, and logs the warning of
  the exception when there was one.
\<close>

theorem C9_out_of_frame_region_is_drawn_unclamped:
  assumes "region face = Some r"
    and "dict_get r ''x'' 0 < 0 \<or> dict_get r ''y'' 0 < 0
         \<or> width < dict_get r ''x'' 0 + dict_get r ''w'' 0
         \<or> height < dict_get r ''y'' 0 + dict_get r ''h'' 0"
    and "DeepFace_analyze lib frame = Inr a"
    and "face \<in> set (analysis_list a)"
  shows "(isl (draw_emotions_on_frame lib canvas [face]) \<longleftrightarrow>
            isl (cv2_rectangle lib canvas (dict_get r ''x'' 0, dict_get r ''y'' 0)
                   (dict_get r ''x'' 0 + dict_get r ''w'' 0, dict_get r ''y'' 0 + dict_get r ''h'' 0)
                   (emotion_color (emotion_of face)) 2)
            \<or> (\<exists>frame1.
                 cv2_rectangle lib canvas (dict_get r ''x'' 0, dict_get r ''y'' 0)
                   (dict_get r ''x'' 0 + dict_get r ''w'' 0, dict_get r ''y'' 0 + dict_get r ''h'' 0)
                   (emotion_color (emotion_of face)) 2 = Inr frame1
                 \<and> isl (cv2_putText lib frame1 (emotion_of face)
                        (dict_get r ''x'' 0, dict_get r ''y'' 0 - 10)
                        FONT_HERSHEY_SIMPLEX (9 / 10) (emotion_color (emotion_of face)) 2)))
         \<and> written (loop_state (loop_body lib frame_count frame s)) =
             written s @
             [case draw_emotions_on_frame lib frame (analysis_list a) of
                Inl (e, frame') \<Rightarrow> frame' | Inr frame' \<Rightarrow> frame']
         \<and> warnings (loop_state (loop_body lib frame_count frame s)) =
             warnings s @
             (case draw_emotions_on_frame lib frame (analysis_list a) of
                Inl (e, frame') \<Rightarrow> [warning_message (frame_number s) e] | Inr frame' \<Rightarrow> [])"
proof -
  have "draw_emotions_on_frame lib canvas [face] =
      (case draw_face lib canvas r (emotion_of face) of Inl err \<Rightarrow> Inl err | Inr frame' \<Rightarrow> Inr frame')"
    using assms(1) by (simp split: sum.splits)
  then have "isl (draw_emotions_on_frame lib canvas [face]) \<longleftrightarrow>
      isl (draw_face lib canvas r (emotion_of face))"
    by (simp split: sum.splits)
  then have raises: "isl (draw_emotions_on_frame lib canvas [face]) \<longleftrightarrow>
            isl (cv2_rectangle lib canvas (dict_get r ''x'' 0, dict_get r ''y'' 0)
                   (dict_get r ''x'' 0 + dict_get r ''w'' 0, dict_get r ''y'' 0 + dict_get r ''h'' 0)
                   (emotion_color (emotion_of face)) 2)
            \<or> (\<exists>frame1.
                 cv2_rectangle lib canvas (dict_get r ''x'' 0, dict_get r ''y'' 0)
                   (dict_get r ''x'' 0 + dict_get r ''w'' 0, dict_get r ''y'' 0 + dict_get r ''h'' 0)
                   (emotion_color (emotion_of face)) 2 = Inr frame1
                 \<and> isl (cv2_putText lib frame1 (emotion_of face)
                        (dict_get r ''x'' 0, dict_get r ''y'' 0 - 10)
                        FONT_HERSHEY_SIMPLEX (9 / 10) (emotion_color (emotion_of face)) 2))"
    by (simp only: draw_face_raises_iff)
  have forwarded: "written (loop_state (loop_body lib frame_count frame s)) =
             written s @
             [case draw_emotions_on_frame lib frame (analysis_list a) of
                Inl (e, frame') \<Rightarrow> frame' | Inr frame' \<Rightarrow> frame']"
    by (simp only: loop_state_loop_body try_block_after_detection(1) [OF assms(3)])
  have "warnings (loop_state (loop_body lib frame_count frame s)) =
      warnings s @ (case snd (try_block lib frame) of
                      None \<Rightarrow> [] | Some e \<Rightarrow> [warning_message (frame_number s) e])"
    by (rule loop_body_warnings)
  then have logged: "warnings (loop_state (loop_body lib frame_count frame s)) =
             warnings s @
             (case draw_emotions_on_frame lib frame (analysis_list a) of
                Inl (e, frame') \<Rightarrow> [warning_message (frame_number s) e] | Inr frame' \<Rightarrow> [])"
    by (simp add: try_block_after_detection(2) [OF assms(3)] split: sum.splits)
  from raises forwarded logged show ?thesis
    by blast
qed

theorem C9_out_of_frame_region_is_drawn_unclamped_witness:
  "(640 < dict_get [(''x'', 600), (''y'', 400), (''w'', 100), (''h'', 100)] ''x'' 0
          + dict_get [(''x'', 600), (''y'', 400), (''w'', 100), (''h'', 100)] ''w'' (0::int))
   \<and> \<not> isl (draw_emotions_on_frame
         (c_int_lib (\<lambda>f. Inr (Many [\<lparr>region = Some [(''x'', 600), (''y'', 400), (''w'', 100), (''h'', 100)],
                                        dominant_emotion = Some ''fear''\<rparr>])) unit_interval_progress)
         (0, [])
         [\<lparr>region = Some [(''x'', 600), (''y'', 400), (''w'', 100), (''h'', 100)],
           dominant_emotion = Some ''fear''\<rparr>])
   \<and> written (loop_state (loop_body
         (c_int_lib (\<lambda>f. Inr (Many [\<lparr>region = Some [(''x'', 600), (''y'', 400), (''w'', 100), (''h'', 100)],
                                        dominant_emotion = Some ''fear''\<rparr>])) unit_interval_progress)
         1 (0, []) start))
     = [(0, [Rectangle (600, 400) (700, 500) (128, 0, 128) 2,
             Text ''fear'' (600, 390) FONT_HERSHEY_SIMPLEX (9 / 10) (128, 0, 128) 2])]"
proof -
  let ?r = "[(''x'', 600), (''y'', 400), (''w'', 100), (''h'', 100 :: int)]"
  let ?face = "\<lparr>region = Some ?r, dominant_emotion = Some ''fear''\<rparr>"
  let ?lib = "c_int_lib (\<lambda>f. Inr (Many [?face])) unit_interval_progress"
  have has_region: "region ?face = Some ?r"
    by simp
  have wide: "640 < dict_get ?r ''x'' 0 + dict_get ?r ''w'' 0"
    by simp
  then have outside: "dict_get ?r ''x'' 0 < 0 \<or> dict_get ?r ''y'' 0 < 0
         \<or> 640 < dict_get ?r ''x'' 0 + dict_get ?r ''w'' 0
         \<or> 480 < dict_get ?r ''y'' 0 + dict_get ?r ''h'' 0"
    by blast
  have detected: "DeepFace_analyze ?lib (0, []) = Inr (Many [?face])"
    by (simp add: c_int_lib_def)
  have listed: "?face \<in> set (analysis_list (Many [?face]))"
    by simp
  note drawn = C9_out_of_frame_region_is_drawn_unclamped
    [OF has_region outside detected listed, of "(0, [])" 1 start]
  have rectangle: "cv2_rectangle ?lib (0, []) (dict_get ?r ''x'' 0, dict_get ?r ''y'' 0)
      (dict_get ?r ''x'' 0 + dict_get ?r ''w'' 0, dict_get ?r ''y'' 0 + dict_get ?r ''h'' 0)
      (emotion_color (emotion_of ?face)) 2
      = Inr (0, [Rectangle (600, 400) (700, 500) (128, 0, 128) 2])"
    by (simp add: c_int_lib_def fits_c_int_def emotion_of_def emotion_color_def EMOTIONS_COLORS_def)
  have label: "cv2_putText ?lib (0, [Rectangle (600, 400) (700, 500) (128, 0, 128) 2])
      (emotion_of ?face) (dict_get ?r ''x'' 0, dict_get ?r ''y'' 0 - 10)
      FONT_HERSHEY_SIMPLEX (9 / 10) (emotion_color (emotion_of ?face)) 2
      = Inr (0, [Rectangle (600, 400) (700, 500) (128, 0, 128) 2,
                 Text ''fear'' (600, 390) FONT_HERSHEY_SIMPLEX (9 / 10) (128, 0, 128) 2])"
    by (simp add: c_int_lib_def fits_c_int_def emotion_of_def emotion_color_def EMOTIONS_COLORS_def)
  have quiet: "\<not> isl (draw_emotions_on_frame ?lib (0, []) [?face])"
    using drawn rectangle label by simp
  have "draw_emotions_on_frame ?lib (0, []) (analysis_list (Many [?face]))
      = Inr (0, [Rectangle (600, 400) (700, 500) (128, 0, 128) 2,
                 Text ''fear'' (600, 390) FONT_HERSHEY_SIMPLEX (9 / 10) (128, 0, 128) 2])"
    by (simp add: run_defs)
  then have "written (loop_state (loop_body ?lib 1 (0, []) start))
      = [(0, [Rectangle (600, 400) (700, 500) (128, 0, 128) 2,
              Text ''fear'' (600, 390) FONT_HERSHEY_SIMPLEX (9 / 10) (128, 0, 128) 2])]"
    using drawn by (simp add: start_def)
  with wide quiet show ?thesis
    by blast
qed

text \<open>
  C9 as stated fails: the annotator raises when a drawing call does, and OpenCV raises
  on a coordinate that does not fit a C \<^verbatim>\<open>int\<close>. A region \<open>2^31\<close> pixels to the right,
  outside every frame, makes the annotator raise; the pipeline catches the exception,
  logs it and writes the frame unannotated.
\<close>

theorem C9_annotator_raises_counterexample:
  "draw_emotions_on_frame (c_int_lib (\<lambda>f. Inr (Many [])) unit_interval_progress) (0, [])
       [\<lparr>region = Some [(''x'', 2147483648), (''y'', 0), (''w'', 50), (''h'', 50)],
         dominant_emotion = Some ''happy''\<rparr>]
     = Inl (LibraryError ''integer does not fit a C int'', (0, []))
   \<and> process_frame
       (c_int_lib (\<lambda>f. Inr (Many [\<lparr>region = Some [(''x'', 2147483648), (''y'', 0), (''w'', 50), (''h'', 50)],
                                      dominant_emotion = Some ''happy''\<rparr>])) unit_interval_progress)
       (0, []) start
     = \<lparr>frames_read = [(0, [])], written = [(0, [])], frame_number = 1, progress_values = [],
        warnings = [''Erro ao processar o frame 0: integer does not fit a C int''],
        capture_released = False, output_released = False\<rparr>"
  by (simp add: run_defs str_nat.simps digit_char_def)

text \<open>
  C10. A record without a \<^verbatim>\<open>"region"\<close> key is passed over by the annotator: no
  drawing call is made for it, so it cannot raise. The tally still counts it under its
  label. A record whose region is present is drawn, and a key among x, y, w, h that
  the region lacks counts as 0: setting the missing key to 0 changes nothing, and an
  empty region is drawn as the region with four zeros.
\<close>

theorem C10_record_without_region_or_coordinates:
  "(region face = None \<longrightarrow>
      draw_emotions_on_frame lib frame (face # rest) = draw_emotions_on_frame lib frame rest)
   \<and> dict_get (emotion_counts (face # rest)) (emotion_of face) 0
       = dict_get (emotion_counts rest) (emotion_of face) 0 + 1
   \<and> (region face = Some r \<longrightarrow>
        draw_emotions_on_frame lib frame [face] = draw_face lib frame r (emotion_of face))
   \<and> (k \<notin> set (dict_keys r) \<longrightarrow>
        draw_face lib frame (dict_set r k 0) emotion = draw_face lib frame r emotion)
   \<and> draw_face lib frame [] emotion =
        draw_face lib frame [(''x'', 0), (''y'', 0), (''w'', 0), (''h'', 0)] emotion"
proof -
  have counted: "dict_get (emotion_counts (face # rest)) (emotion_of face) 0
       = dict_get (emotion_counts rest) (emotion_of face) 0 + 1"
    by (simp add: emotion_counts_def get_count_emotions)
  have drawn: "region face = Some r \<Longrightarrow>
        draw_emotions_on_frame lib frame [face] = draw_face lib frame r (emotion_of face)"
    by (simp split: sum.splits)
  have zeros: "draw_face lib frame [] emotion =
        draw_face lib frame [(''x'', 0), (''y'', 0), (''w'', 0), (''h'', 0)] emotion"
    by (simp add: draw_face_def)
  show ?thesis
    using counted drawn zeros draw_face_dict_set_absent [of k r lib frame emotion]
    by simp
qed

theorem C10_record_without_region_or_coordinates_witness:
  "draw_emotions_on_frame (canvas_lib (\<lambda>f. Inr (Many [])) unit_interval_progress) (0, [])
     [\<lparr>region = None, dominant_emotion = Some ''angry''\<rparr>] = Inr (0, [])
   \<and> dict_get (emotion_counts [\<lparr>region = None, dominant_emotion = Some ''angry''\<rparr>]) ''angry'' 0 = 1
   \<and> draw_emotions_on_frame (canvas_lib (\<lambda>f. Inr (Many [])) unit_interval_progress) (0, [])
       [\<lparr>region = Some [(''x'', 12), (''h'', 5)], dominant_emotion = Some ''angry''\<rparr>]
     = Inr (0, [Rectangle (12, 0) (12, 5) (0, 0, 255) 2,
                Text ''angry'' (12, - 10) FONT_HERSHEY_SIMPLEX (9 / 10) (0, 0, 255) 2])"
proof -
  let ?lib = "canvas_lib (\<lambda>f. Inr (Many [])) unit_interval_progress"
  let ?bare = "\<lparr>region = None, dominant_emotion = Some ''angry''\<rparr>"
  let ?partial = "\<lparr>region = Some [(''x'', 12), (''h'', 5)], dominant_emotion = Some ''angry''\<rparr>"
  note bare = C10_record_without_region_or_coordinates [of ?bare ?lib "(0, [])" "[]" "[]" "''y''" "''angry''"]
  have skipped: "draw_emotions_on_frame ?lib (0, []) [?bare] = Inr (0, [])"
    using bare by simp
  have counted: "dict_get (emotion_counts [?bare]) ''angry'' 0 = 1"
    using bare by (simp add: emotion_of_def emotion_counts_def)
  note part = C10_record_without_region_or_coordinates
    [of ?partial ?lib "(0, [])" "[]" "[(''x'', 12), (''h'', 5)]" "''y''" "''angry''"]
  have "draw_emotions_on_frame ?lib (0, []) [?partial]
      = draw_face ?lib (0, []) [(''x'', 12), (''h'', 5)] ''angry''"
    using part by (simp add: emotion_of_def)
  also have "\<dots> = Inr (0, [Rectangle (12, 0) (12, 5) (0, 0, 255) 2,
                Text ''angry'' (12, - 10) FONT_HERSHEY_SIMPLEX (9 / 10) (0, 0, 255) 2])"
    by (simp add: canvas_lib_def draw_face_def Let_def emotion_color_def EMOTIONS_COLORS_def)
  finally show ?thesis
    using skipped counted by blast
qed

end
